theory Spec2Isabelle
  imports Complex_Main "HOL-Library.Word" "HOL-Library.Log_Nat"
begin

section \<open>Arithmetic of the sketch\<close>

text \<open>
  The sketch computes in C \<open>float\<close>, which on the AVR is IEEE 754 binary32 (\<open>double\<close> is
  the same 32-bit type there). The values are modelled as reals extended with the three
  special results that the AVR software float library produces instead of trapping: a
  division by zero yields an infinity (a non-zero dividend) or a NaN (a zero dividend).

  A sum is rounded as binary32 rounds it: both operands are converted to binary32 (which
  is the conversion of a decimal constant such as \<open>0.011\<close>; a stored value is a binary32
  value already and stays as it is), and their exact sum is rounded to the nearest binary32
  value, a tie going to the even mantissa, or to an infinity from \<open>2 ^ 128\<close> on.
  Products and quotients of finite values are exact: their rounding, their overflow and
  the sign of zero are outside this model.
\<close>

datatype cfloat = Fin real | PInf | NInf | NaN

definition signed_inf :: "real \<Rightarrow> cfloat" where
  "signed_inf r = (if 0 < r then PInf else if r < 0 then NInf else NaN)"

text \<open>
  The binary32 values around a positive \<open>a\<close> with \<open>2 ^ e \<le> a < 2 ^ (e + 1)\<close> are the
  multiples of \<open>2 ^ (e - 23)\<close>, where \<open>e\<close> is at least \<open>-126\<close> (below \<open>2 ^ (-126)\<close> the
  subnormal values keep the spacing \<open>2 ^ (-149)\<close>). \<open>bitlen\<close> is the number of binary
  digits of an integer. For \<open>a = 0\<close> the spacing does not matter: 0 is a multiple of
  every spacing and is rounded to itself.
\<close>

definition b32_exponent :: "real \<Rightarrow> int" where
  "b32_exponent a =
     max (- 126) (if 1 \<le> a then bitlen \<lfloor>a\<rfloor> - 1 else - bitlen (\<lceil>1 / a\<rceil> - 1))"

definition b32_ulp :: "real \<Rightarrow> real" where
  "b32_ulp a =
     (let e = b32_exponent a - 23 in if 0 \<le> e then 2 ^ nat e else 1 / 2 ^ nat (- e))"

text \<open>The multiple of the spacing nearest to \<open>x\<close>, a tie going to the even multiple.\<close>

definition b32_near :: "real \<Rightarrow> real" where
  "b32_near x =
     (let u = b32_ulp \<bar>x\<bar>;
          q = \<bar>x\<bar> / u;
          n = \<lfloor>q\<rfloor>;
          r = q - of_int n;
          k = (if r < 1 / 2 then n else if 1 / 2 < r then n + 1
               else if even n then n else n + 1)
      in sgn x * (of_int k * u))"

definition b32 :: "real \<Rightarrow> cfloat" where
  "b32 x = (let y = b32_near x in if 2 ^ 128 \<le> \<bar>y\<bar> then signed_inf y else Fin y)"

instantiation cfloat :: "{plus, times, divide}"
begin

fun plus_cfloat :: "cfloat \<Rightarrow> cfloat \<Rightarrow> cfloat" where
  "plus_cfloat (Fin x) (Fin y) = b32 (b32_near x + b32_near y)"
| "plus_cfloat NaN _ = NaN"
| "plus_cfloat _ NaN = NaN"
| "plus_cfloat PInf NInf = NaN"
| "plus_cfloat NInf PInf = NaN"
| "plus_cfloat PInf _ = PInf"
| "plus_cfloat _ PInf = PInf"
| "plus_cfloat NInf _ = NInf"
| "plus_cfloat _ NInf = NInf"

fun times_cfloat :: "cfloat \<Rightarrow> cfloat \<Rightarrow> cfloat" where
  "times_cfloat (Fin x) (Fin y) = Fin (x * y)"
| "times_cfloat NaN _ = NaN"
| "times_cfloat _ NaN = NaN"
| "times_cfloat PInf (Fin y) = signed_inf y"
| "times_cfloat NInf (Fin y) = signed_inf (- y)"
| "times_cfloat (Fin x) PInf = signed_inf x"
| "times_cfloat (Fin x) NInf = signed_inf (- x)"
| "times_cfloat PInf PInf = PInf"
| "times_cfloat PInf NInf = NInf"
| "times_cfloat NInf PInf = NInf"
| "times_cfloat NInf NInf = PInf"

fun divide_cfloat :: "cfloat \<Rightarrow> cfloat \<Rightarrow> cfloat" where
  "divide_cfloat (Fin x) (Fin y) = (if y = 0 then signed_inf x else Fin (x / y))"
| "divide_cfloat NaN _ = NaN"
| "divide_cfloat _ NaN = NaN"
| "divide_cfloat (Fin x) PInf = Fin 0"
| "divide_cfloat (Fin x) NInf = Fin 0"
| "divide_cfloat PInf (Fin y) = (if y < 0 then NInf else PInf)"
| "divide_cfloat NInf (Fin y) = (if y < 0 then PInf else NInf)"
| "divide_cfloat PInf PInf = NaN"
| "divide_cfloat PInf NInf = NaN"
| "divide_cfloat NInf PInf = NaN"
| "divide_cfloat NInf NInf = NaN"

instance ..

end

instantiation cfloat :: inverse
begin

definition inverse_cfloat :: "cfloat \<Rightarrow> cfloat" where
  "inverse_cfloat a = Fin 1 div a"

instance ..

end

text \<open>The comparison \<open><\<close> of two floats; it is false as soon as one side is a NaN.\<close>

fun flt :: "cfloat \<Rightarrow> cfloat \<Rightarrow> bool" where
  "flt (Fin x) (Fin y) = (x < y)"
| "flt NaN _ = False"
| "flt _ NaN = False"
| "flt PInf _ = False"
| "flt NInf NInf = False"
| "flt NInf _ = True"
| "flt (Fin x) PInf = True"
| "flt (Fin x) NInf = False"

text \<open>Conversions of the unsigned machine integers to \<open>float\<close>.\<close>

definition float_of_byte :: "8 word \<Rightarrow> cfloat" where
  "float_of_byte b = Fin (real (unat b))"

definition float_of_ulong :: "32 word \<Rightarrow> cfloat" where
  "float_of_ulong w = Fin (real (unat w))"

definition float_of_adc :: "nat \<Rightarrow> cfloat" where
  "float_of_adc n = Fin (real n)"

section \<open>The globals of the sketch and its inputs\<close>

text \<open>
  The globals of \<open>WeatherStation.ino\<close> that the interrupt routines and the once-a-second
  cycle use. A \<open>byte\<close> is an 8-bit word; \<open>long\<close> and \<open>unsigned long\<close> are 32-bit words
  (the \<open>long\<close> time stamps are only ever subtracted from \<open>millis()\<close>, an
  \<open>unsigned long\<close>, so the subtraction is the unsigned one and wraps modulo \<open>2 ^ 32\<close>).
  \<open>winddir\<close> only holds \<open>-1\<close> and the constants of the direction table. The arrays
  \<open>rainHour[60]\<close> and \<open>windgust_2m[40]\<close> are lists.
\<close>

record state =
  seconds :: "8 word"
  minutes :: "8 word"
  lastWindCheck :: "32 word"
  lastWindIRQ :: "32 word"
  windClicks :: "8 word"
  lastWindGustCheck :: "32 word"
  windGustClicks :: "8 word"
  currentWindGust :: "8 word"
  rainHour :: "cfloat list"
  winddir :: int
  windspeed :: cfloat
  windgust_2m :: "cfloat list"
  humidity :: cfloat
  pressure :: cfloat
  pTempc :: cfloat
  hTempc :: cfloat
  irTempc :: cfloat
  irSkyTempc :: cfloat
  rainin :: cfloat
  light_lvl :: cfloat
  raintime :: "32 word"
  rainlast :: "32 word"
  raininterval :: "32 word"

text \<open>
  What one cycle reads from outside: the sensor libraries, the analog inputs and the four
  calls of \<open>millis()\<close> in \<open>calc_wind\<close> (lines 325, 332, 336 and 351), which may each
  return a later time.
\<close>

record env =
  readHumidity :: cfloat
  readPressure :: cfloat
  readTemperature :: cfloat
  readTemp :: cfloat
  ir_read :: bool
  ir_ambient :: cfloat
  ir_object :: cfloat
  adc_REFERENCE_3V3 :: nat
  adc_LIGHT :: nat
  adc_WDIR :: nat
  millis_325 :: "32 word"
  millis_332 :: "32 word"
  millis_336 :: "32 word"
  millis_351 :: "32 word"

section \<open>Interrupt routines\<close>

text \<open>
  \<open>rainIRQ\<close> (lines 82-94), entered at time \<open>now\<close>. The store into
  \<open>rainHour[minutes]\<close> is outside the array when \<open>minutes\<close> is not below its length:
  that is undefined behaviour in C, the result \<open>None\<close> here.
\<close>

definition rainIRQ :: "32 word \<Rightarrow> state \<Rightarrow> state option" where
  "rainIRQ now s =
     (let s = s\<lparr>raintime := now\<rparr>;
          s = s\<lparr>raininterval := raintime s - rainlast s\<rparr>
      in if raininterval s > 10
         then (if unat (minutes s) < length (rainHour s)
               then Some (s\<lparr>rainHour := (rainHour s)[unat (minutes s) :=
                                 rainHour s ! unat (minutes s) + Fin 0.011],
                            rainlast := raintime s\<rparr>)
               else None)
         else Some s)"

text \<open>
  \<open>wspeedIRQ\<close> (lines 96-104), entered at time \<open>now\<close>. Both calls of \<open>millis()\<close>
  return \<open>now\<close>: interrupts are disabled inside an interrupt routine of the AVR, so the
  timer tick that advances \<open>millis()\<close> is not served before the routine returns.
\<close>

definition wspeedIRQ :: "32 word \<Rightarrow> state \<Rightarrow> state" where
  "wspeedIRQ now s =
     (if now - lastWindIRQ s > 10
      then s\<lparr>lastWindIRQ := now, windClicks := windClicks s + 1\<rparr>
      else s)"

section \<open>The once-a-second cycle\<close>

text \<open>\<open>calc_rain\<close> (lines 285-292): the loop over \<open>i = 0 .. 59\<close>.\<close>

definition calc_rain :: "state \<Rightarrow> state" where
  "calc_rain s =
     foldl (\<lambda>s i. s\<lparr>rainin := rainin s + rainHour s ! i\<rparr>) (s\<lparr>rainin := Fin 0\<rparr>) [0..<60]"

text \<open>\<open>get_light_level\<close> (lines 360-371).\<close>

definition get_light_level :: "env \<Rightarrow> cfloat" where
  "get_light_level e =
     (let operatingVoltage = float_of_adc (adc_REFERENCE_3V3 e);
          lightSensor = float_of_adc (adc_LIGHT e);
          operatingVoltage = Fin 3.3 / operatingVoltage;
          lightSensor = operatingVoltage * lightSensor
      in lightSensor)"

text \<open>
  \<open>calc_wind\<close> (lines 294-356) in the four parts between which the interrupt routine
  matters: the direction (lines 299-321), the speed with its read of \<open>windClicks\<close>
  (lines 325-332), the gust with its second read (lines 336-352) and the reset (line 354).
  \<open>winddir_of_adc\<close> is the value that the assignments of lines 305-321, run in their
  order, leave in \<open>winddir\<close>.
\<close>

definition winddir_of_adc :: "nat \<Rightarrow> int" where
  "winddir_of_adc adc =
     (let winddir = - 1;
          winddir = (if adc < 380 then 113 else winddir);
          winddir = (if adc < 393 then 68 else winddir);
          winddir = (if adc < 414 then 90 else winddir);
          winddir = (if adc < 456 then 158 else winddir);
          winddir = (if adc < 508 then 135 else winddir);
          winddir = (if adc < 551 then 203 else winddir);
          winddir = (if adc < 615 then 180 else winddir);
          winddir = (if adc < 680 then 23 else winddir);
          winddir = (if adc < 746 then 45 else winddir);
          winddir = (if adc < 801 then 248 else winddir);
          winddir = (if adc < 833 then 225 else winddir);
          winddir = (if adc < 878 then 338 else winddir);
          winddir = (if adc < 913 then 0 else winddir);
          winddir = (if adc < 940 then 293 else winddir);
          winddir = (if adc < 967 then 315 else winddir);
          winddir = (if adc < 990 then 270 else winddir)
      in winddir)"

definition calc_wind_dir :: "env \<Rightarrow> state \<Rightarrow> state" where
  "calc_wind_dir e s = (let adc = adc_WDIR e in s\<lparr>winddir := winddir_of_adc adc\<rparr>)"

definition calc_wind_speed :: "env \<Rightarrow> state \<Rightarrow> state" where
  "calc_wind_speed e s =
     (let deltaTime = float_of_ulong (millis_325 e - lastWindCheck s);
          deltaTime = deltaTime / Fin 1000.0;
          s = s\<lparr>windspeed := float_of_byte (windClicks s) / deltaTime\<rparr>;
          s = s\<lparr>windspeed := windspeed s * Fin 1.492\<rparr>;
          s = s\<lparr>windspeed := windspeed s * Fin 0.44704\<rparr>
      in s\<lparr>lastWindCheck := millis_332 e\<rparr>)"

definition calc_wind_gust :: "env \<Rightarrow> state \<Rightarrow> state" where
  "calc_wind_gust e s =
     (let windGustDeltaTime = float_of_ulong (millis_336 e - lastWindGustCheck s)
      in if flt windGustDeltaTime (Fin 3000)
         then s\<lparr>windGustClicks := windGustClicks s + windClicks s\<rparr>
         else (let windgust = float_of_byte (windGustClicks s) / windGustDeltaTime;
                   windgust = windgust * Fin 1.492;
                   windgust = windgust * Fin 0.44704;
                   s = s\<lparr>currentWindGust := currentWindGust s + 1\<rparr>;
                   s = (if currentWindGust s > 39 then s\<lparr>currentWindGust := 0\<rparr> else s);
                   s = s\<lparr>windgust_2m := (windgust_2m s)[unat (currentWindGust s) := windgust]\<rparr>
               in s\<lparr>lastWindGustCheck := millis_351 e\<rparr>))"

definition calc_wind_reset :: "state \<Rightarrow> state" where
  "calc_wind_reset s = s\<lparr>windClicks := 0\<rparr>"

definition calc_wind :: "env \<Rightarrow> state \<Rightarrow> state" where
  "calc_wind e s = calc_wind_reset (calc_wind_gust e (calc_wind_speed e (calc_wind_dir e s)))"

text \<open>
  \<open>calcWeather\<close> (lines 248-283). The two \<open>float\<close> variables declared in the branch of
  the successful IR read are locals of that block.
\<close>

definition calcWeather :: "env \<Rightarrow> state \<Rightarrow> state" where
  "calcWeather e s =
     (let s = s\<lparr>humidity := readHumidity e\<rparr>;
          s = s\<lparr>pressure := readPressure e\<rparr>;
          s = calc_rain s;
          s = s\<lparr>light_lvl := get_light_level e\<rparr>;
          s = s\<lparr>hTempc := readTemperature e\<rparr>;
          s = s\<lparr>pTempc := readTemp e\<rparr>;
          s = (if ir_read e
               then (let irTempc_local = ir_ambient e;
                         irSkyTempc_local = ir_object e
                     in s)
               else s);
          s = calc_wind e s;
          s = s\<lparr>seconds := seconds s + 1\<rparr>
      in if seconds s > 59
         then (let s = s\<lparr>seconds := 0\<rparr>;
                   s = s\<lparr>minutes := minutes s + 1\<rparr>;
                   s = (if minutes s > 59 then s\<lparr>minutes := 0\<rparr> else s)
               in s\<lparr>rainHour := (rainHour s)[unat (minutes s) := Fin 0]\<rparr>)
         else s)"

section \<open>Queries\<close>

text \<open>
  The value each command hands to \<open>Serial.println\<close> (lines 201-209); the printing with
  five decimals is the serial library's.
\<close>

definition SkyTemperature :: "state \<Rightarrow> cfloat" where
  "SkyTemperature s = irSkyTempc s"

definition Temperature :: "state \<Rightarrow> cfloat" where
  "Temperature s = irTempc s"

section \<open>Concrete states and inputs\<close>

text \<open>
  The globals as the sketch initialises them (zero unless an initialiser says otherwise),
  and the inputs of a cycle in which every call of \<open>millis()\<close> returns \<open>t\<close>, the wind
  vane reads \<open>a\<close> and the sensors read zero.
\<close>

definition boot :: state where
  "boot = \<lparr>seconds = 0, minutes = 0, lastWindCheck = 0, lastWindIRQ = 0, windClicks = 0,
            lastWindGustCheck = 0, windGustClicks = 0, currentWindGust = 0,
            rainHour = replicate 60 (Fin 0), winddir = 0, windspeed = Fin 0,
            windgust_2m = replicate 40 (Fin 0), humidity = Fin 0, pressure = Fin 0,
            pTempc = Fin 0, hTempc = Fin 0, irTempc = Fin 0, irSkyTempc = Fin 0,
            rainin = Fin 0, light_lvl = Fin 455, raintime = 0, rainlast = 0,
            raininterval = 0\<rparr>"

definition env_at :: "32 word \<Rightarrow> nat \<Rightarrow> env" where
  "env_at t a = \<lparr>readHumidity = Fin 0, readPressure = Fin 0, readTemperature = Fin 0,
                  readTemp = Fin 0, ir_read = True, ir_ambient = Fin 21, ir_object = Fin (- 5),
                  adc_REFERENCE_3V3 = 675, adc_LIGHT = 100, adc_WDIR = a,
                  millis_325 = t, millis_332 = t, millis_336 = t, millis_351 = t\<rparr>"

section \<open>The cycle with the anemometer interrupt in between\<close>

text \<open>
  The sketch never disables interrupts, so \<open>wspeedIRQ\<close> can run between any two
  statements of \<open>calc_wind\<close>. The routine only touches \<open>lastWindIRQ\<close> and
  \<open>windClicks\<close>, and \<open>calc_wind\<close> touches \<open>windClicks\<close> at three places: the read
  of line 329, the read of line 339 and the store of line 354. Up to the order of
  independent steps, an execution is therefore fixed by the edges served between the first
  read and the gust part (\<open>es1\<close>) and between the gust part and the reset (\<open>es2\<close>);
  each list gives the times at which the routine is entered, in order.
\<close>

definition calc_wind_preempted :: "env \<Rightarrow> 32 word list \<Rightarrow> 32 word list \<Rightarrow> state \<Rightarrow> state" where
  "calc_wind_preempted e es1 es2 s =
     calc_wind_reset
       (fold wspeedIRQ es2
          (calc_wind_gust e
             (fold wspeedIRQ es1
                (calc_wind_speed e (calc_wind_dir e s)))))"

section \<open>The direction table of the specification\<close>

text \<open>
  The table of the specification's glossary, pairs of an upper bound of the ADC reading
  and a heading in degrees, in ascending order of the bound. The specification describes
  the direction as a scan of this table; the source has no table, only the sixteen
  assignments of \<open>winddir_of_adc\<close>.
\<close>

definition DirectionTable :: "(nat \<times> int) list" where
  "DirectionTable =
     [(380, 113), (393, 68), (414, 90), (456, 158), (508, 135), (551, 203), (615, 180),
      (680, 23), (746, 45), (801, 248), (833, 225), (878, 338), (913, 0), (940, 293),
      (967, 315), (990, 270)]"

text \<open>
  A run from the initial state: one edge before the cycle at 1000 ms, two before the cycle
  at 2000 ms and two more before the cycle at 3000 ms is due. \<open>gust_run\<close> is the state
  in which that third cycle starts.
\<close>

definition gust_run :: state where
  "gust_run =
     wspeedIRQ 2700 (wspeedIRQ 2500
       (calc_wind (env_at 2000 0)
          (wspeedIRQ 1700 (wspeedIRQ 1500
             (calc_wind (env_at 1000 0) (wspeedIRQ 500 boot))))))"

text \<open>
  A state in which two ticks are waiting in \<open>windClicks\<close>, the last wind check was at
  4000 ms and the last accepted edge at 4700 ms.
\<close>

definition race_state :: state where
  "race_state = boot\<lparr>windClicks := 2, lastWindIRQ := 4700, lastWindCheck := 4000,
                      lastWindGustCheck := 3000\<rparr>"


section \<open>Basic facts\<close>

subsection \<open>Rounding\<close>

lemmas b32_eval =
  b32_def b32_near_def b32_ulp_def b32_exponent_def bitlen_def compute_floorlog Let_def







subsection \<open>Machine integers\<close>

lemma unsigned_real_nonneg: "\<not> (unsigned (w::'a::len word) :: real) < 0"
proof -
  have "(unsigned w :: real) = real (unat w)" by simp
  then show ?thesis by (simp only: of_nat_less_0_iff not_False_eq_True)
qed

lemma unsigned_real_pos: "(0 < (unsigned (w::'a::len word) :: real)) = (w \<noteq> 0)"
proof -
  have "(unsigned w :: real) = real (unat w)" by simp
  then have "(0 < (unsigned w :: real)) = (0 < unat w)" by (simp only: of_nat_0_less_iff)
  then show ?thesis by (simp add: unat_gt_0)
qed

lemma byte_le_59: "\<not> (b::8 word) > 59 \<Longrightarrow> unat b \<le> 59"
  by (simp add: word_less_nat_alt)

lemma byte_succ_mod:
  "unat (m::8 word) \<le> 59 \<Longrightarrow> unat (if m + 1 > 59 then 0 else m + 1) = (unat m + 1) mod 60"
  by (cases "unat m = 59") (auto simp: word_less_nat_alt unat_word_ariths)

subsection \<open>The rain sum\<close>

lemma calc_rain_fold:
  "foldl (\<lambda>s i. s\<lparr>rainin := rainin s + rainHour s ! i\<rparr>) (s\<lparr>rainin := a\<rparr>) xs =
   s\<lparr>rainin := foldl (\<lambda>a i. a + rainHour s ! i) a xs\<rparr>"
  by (induction xs arbitrary: a) simp_all

lemma calc_rain_eq:
  "calc_rain s = s\<lparr>rainin := foldl (\<lambda>a i. a + rainHour s ! i) (Fin 0) [0..<60]\<rparr>"
  by (simp only: calc_rain_def calc_rain_fold)








subsection \<open>What each part of the cycle leaves alone\<close>

lemma windspeed_calc_wind:
  "windspeed (calc_wind e s) = windspeed (calc_wind_speed e s)"
  by (simp add: calc_wind_def calc_wind_reset_def calc_wind_gust_def calc_wind_dir_def
      calc_wind_speed_def Let_def)

lemma winddir_calc_wind: "winddir (calc_wind e s) = winddir_of_adc (adc_WDIR e)"
  by (simp add: calc_wind_def calc_wind_reset_def calc_wind_gust_def calc_wind_dir_def
      calc_wind_speed_def Let_def)

lemma calc_wind_clock:
  "seconds (calc_wind e s) = seconds s \<and> minutes (calc_wind e s) = minutes s
   \<and> rainHour (calc_wind e s) = rainHour s"
  by (simp add: calc_wind_def calc_wind_reset_def calc_wind_gust_def calc_wind_dir_def
      calc_wind_speed_def Let_def)

lemma calcWeather_clock_eq:
  "seconds (calcWeather e s) = (if seconds s + 1 > 59 then 0 else seconds s + 1)"
  "minutes (calcWeather e s) =
     (if seconds s + 1 > 59 then (if minutes s + 1 > 59 then 0 else minutes s + 1)
      else minutes s)"
  "rainHour (calcWeather e s) =
     (if seconds s + 1 > 59
      then (rainHour s)[unat (if minutes s + 1 > 59 then 0 else minutes s + 1) := Fin 0]
      else rainHour s)"
  by (simp_all add: calcWeather_def calc_rain_eq calc_wind_clock Let_def)



lemma fold_wspeedIRQ_windspeed: "windspeed (fold wspeedIRQ es s) = windspeed s"
  by (induction es arbitrary: s) (simp_all add: wspeedIRQ_def)

lemma calc_wind_gust_windspeed: "windspeed (calc_wind_gust e s) = windspeed s"
  by (simp add: calc_wind_gust_def Let_def)

subsection \<open>The direction\<close>

lemma winddir_of_adc_eq: "winddir_of_adc adc = (if adc < 990 then 270 else - 1)"
  by (cases "adc < 990") (simp_all add: winddir_of_adc_def)

lemma scan_DirectionTable:
  "foldl (\<lambda>d (t, v). if adc < t then v else d) (- 1) DirectionTable = winddir_of_adc adc"
  by (simp add: DirectionTable_def winddir_of_adc_def)

lemma filter_DirectionTable_empty:
  "(filter (\<lambda>(t, v). adc < t) DirectionTable = []) = (990 \<le> adc)"
  by (cases "adc < 990") (simp_all add: DirectionTable_def)

lemma filter_DirectionTable_last:
  assumes a: "adc < 990"
  shows "last (filter (\<lambda>(t, v). adc < t) DirectionTable) = (990, 270)"
proof -
  have "DirectionTable = butlast DirectionTable @ [(990, 270)]"
    by (simp add: DirectionTable_def)
  then have "last (filter (\<lambda>(t, v). adc < t) DirectionTable) =
      last (filter (\<lambda>(t, v). adc < t) (butlast DirectionTable @ [(990, 270)]))"
    by simp
  also have "\<dots> = (990, 270)"
    using a by (simp only: filter_append filter.simps case_prod_conv if_True last_snoc)
  finally show ?thesis .
qed

subsection \<open>The run up to the third cycle\<close>

lemma gust_run_eval:
  "windGustClicks gust_run = 3 \<and> windClicks gust_run = 2 \<and> lastWindGustCheck gust_run = 0
   \<and> currentWindGust gust_run = 0 \<and> windgust_2m gust_run = replicate 40 (Fin 0)"
  by (simp add: gust_run_def boot_def env_at_def wspeedIRQ_def calc_wind_def
      calc_wind_reset_def calc_wind_gust_def calc_wind_dir_def calc_wind_speed_def Let_def
      float_of_ulong_def)

section \<open>Wind speed\<close>



text \<open>
  C6. The claim is that a zero elapsed time is guarded and gives \<open>0\<close> or the previous
  speed. The source has no such guard. With no tick and no elapsed time the cycle commits
  the NaN of \<open>0.0 / 0.0\<close>, which is neither zero nor the speed held before (\<open>2\<close> here).
\<close>

theorem zero_elapsed_not_guarded:
  "windspeed (calc_wind (env_at 5000 0) (boot\<lparr>lastWindCheck := 5000, windspeed := Fin 2\<rparr>)) = NaN
   \<and> windspeed (calc_wind (env_at 5000 0) (boot\<lparr>lastWindCheck := 5000, windspeed := Fin 2\<rparr>)) \<noteq> Fin 0
   \<and> windspeed (calc_wind (env_at 5000 0) (boot\<lparr>lastWindCheck := 5000, windspeed := Fin 2\<rparr>))
       \<noteq> windspeed (boot\<lparr>lastWindCheck := 5000, windspeed := Fin 2\<rparr>)"
  by (simp add: boot_def env_at_def windspeed_calc_wind calc_wind_speed_def float_of_byte_def
      float_of_ulong_def signed_inf_def)

text \<open>
  C6, as the source has it: when no time has elapsed since the last wind check the division
  is carried out all the same. It does not trap; the committed speed is a NaN when no tick
  was counted and plus infinity otherwise.
\<close>

theorem zero_elapsed_divides:
  "millis_325 e = lastWindCheck s \<Longrightarrow>
   windspeed (calc_wind e s) = (if windClicks s = 0 then NaN else PInf)"
  by (simp add: windspeed_calc_wind calc_wind_speed_def Let_def float_of_byte_def
      float_of_ulong_def signed_inf_def unsigned_eq_0_iff unsigned_real_nonneg
      unsigned_real_pos)

theorem zero_elapsed_divides_witness:
  "millis_325 (env_at 5000 0) = lastWindCheck (boot\<lparr>lastWindCheck := 5000, windClicks := 4\<rparr>)
   \<and> windspeed (calc_wind (env_at 5000 0) (boot\<lparr>lastWindCheck := 5000, windClicks := 4\<rparr>)) = PInf"
  using zero_elapsed_divides [of "env_at 5000 0" "boot\<lparr>lastWindCheck := 5000, windClicks := 4\<rparr>"]
  by (simp add: boot_def env_at_def)

section \<open>Wind gust\<close>

text \<open>
  C2. The claim is that the sample stored at a rotation of the gust window is
  \<open>t * 1.492 * 0.44704 / (intervalMs / 1000)\<close> for the \<open>t\<close> ticks of that interval. In
  the run \<open>gust_run\<close> five ticks arrive in the first 3000 ms. The cycle at 3000 ms stores
  \<open>3 * 1.492 * 0.44704 / 3000\<close>: it divides by the milliseconds, it leaves out the two
  ticks of its own second, and it keeps \<open>windGustClicks\<close> at 3 for the next interval.
\<close>

theorem gust_sample_at_rotation:
  "windgust_2m (calc_wind (env_at 3000 0) gust_run)
     = (replicate 40 (Fin 0))[1 := Fin (3 * 1.492 * 0.44704 / 3000)]
   \<and> windgust_2m (calc_wind (env_at 3000 0) gust_run) ! 1 \<noteq> Fin (5 * 1.492 * 0.44704 / (3000 / 1000))
   \<and> windgust_2m (calc_wind (env_at 3000 0) gust_run) ! 1 \<noteq> Fin (3 * 1.492 * 0.44704 / (3000 / 1000))
   \<and> windGustClicks (calc_wind (env_at 3000 0) gust_run) = 3
   \<and> lastWindGustCheck (calc_wind (env_at 3000 0) gust_run) = 3000"
  using gust_run_eval
  by (simp add: env_at_def calc_wind_def calc_wind_reset_def calc_wind_gust_def
      calc_wind_dir_def calc_wind_speed_def Let_def float_of_ulong_def float_of_byte_def)

section \<open>Wind direction\<close>

text \<open>
  C3. The direction that \<open>calc_wind\<close> commits is the result of scanning the sixteen
  entries in ascending order of the threshold, each entry whose threshold exceeds the
  reading overwriting the result so far: it is the heading of the last entry whose
  threshold exceeds the reading, and \<open>-1\<close> when no threshold does, which is the case
  exactly for readings of 990 and more.
\<close>

theorem winddir_last_matching_entry:
  "winddir (calc_wind e s) =
     foldl (\<lambda>d (t, v). if adc_WDIR e < t then v else d) (- 1) DirectionTable
   \<and> winddir (calc_wind e s) =
       (case filter (\<lambda>(t, v). adc_WDIR e < t) DirectionTable of
          [] \<Rightarrow> - 1
        | x # xs \<Rightarrow> snd (last (x # xs)))
   \<and> ((filter (\<lambda>(t, v). adc_WDIR e < t) DirectionTable = []) = (990 \<le> adc_WDIR e))"
proof (intro conjI)
  show "winddir (calc_wind e s) =
      foldl (\<lambda>d (t, v). if adc_WDIR e < t then v else d) (- 1) DirectionTable"
    by (simp only: winddir_calc_wind scan_DirectionTable)
  show "(filter (\<lambda>(t, v). adc_WDIR e < t) DirectionTable = []) = (990 \<le> adc_WDIR e)"
    by (rule filter_DirectionTable_empty)
  show "winddir (calc_wind e s) =
       (case filter (\<lambda>(t, v). adc_WDIR e < t) DirectionTable of
          [] \<Rightarrow> - 1
        | x # xs \<Rightarrow> snd (last (x # xs)))"
  proof (cases "adc_WDIR e < 990")
    case True
    then have "filter (\<lambda>(t, v). adc_WDIR e < t) DirectionTable \<noteq> []"
      by (simp add: filter_DirectionTable_empty)
    then obtain x xs where f: "filter (\<lambda>(t, v). adc_WDIR e < t) DirectionTable = x # xs"
      by (cases "filter (\<lambda>(t, v). adc_WDIR e < t) DirectionTable") auto
    from filter_DirectionTable_last [OF True] f have "snd (last (x # xs)) = 270"
      by simp
    with f True show ?thesis
      by (simp add: winddir_calc_wind winddir_of_adc_eq)
  next
    case False
    then have "filter (\<lambda>(t, v). adc_WDIR e < t) DirectionTable = []"
      by (simp add: filter_DirectionTable_empty)
    with False show ?thesis
      by (simp add: winddir_calc_wind winddir_of_adc_eq)
  qed
qed

text \<open>
  C4. The claim is that a reading of 0 yields 113, the heading of the entry with the
  smallest threshold. Every one of the sixteen comparisons holds for a reading of 0 and the
  last assignment stays: the cycle commits 270.
\<close>

theorem winddir_adc_zero:
  "winddir (calc_wind (env_at 5000 0) boot) = 270
   \<and> winddir (calc_wind (env_at 5000 0) boot) \<noteq> 113"
  by (simp add: winddir_calc_wind winddir_of_adc_eq env_at_def)

section \<open>Debounced edges\<close>

text \<open>
  C5. For the anemometer and for the rain gauge alike, an edge at time \<open>now\<close> is accepted
  exactly when \<open>now\<close> minus the time of the last accepted edge (modulo \<open>2 ^ 32\<close>)
  exceeds 10. An accepted wind edge adds one to \<open>windClicks\<close> (a byte, so the addition is
  modulo 256) and stores \<open>now\<close> in \<open>lastWindIRQ\<close>; an accepted rain edge adds \<open>0.011\<close> to the slot of the current
  minute (a float addition), changes no other slot, and stores \<open>now\<close> in \<open>rainlast\<close>. A rejected wind edge
  changes nothing at all; a rejected rain edge changes neither a slot nor \<open>rainlast\<close>.
\<close>

theorem debounce_accept_reject:
  "(now - lastWindIRQ s > 10 \<longrightarrow>
      windClicks (wspeedIRQ now s) = windClicks s + 1 \<and> lastWindIRQ (wspeedIRQ now s) = now)
   \<and> (\<not> now - lastWindIRQ s > 10 \<longrightarrow> wspeedIRQ now s = s)
   \<and> (now - rainlast s > 10 \<and> unat (minutes s) < length (rainHour s) \<longrightarrow>
        (\<exists>s'. rainIRQ now s = Some s'
           \<and> rainHour s' =
               (rainHour s)[unat (minutes s) := rainHour s ! unat (minutes s) + Fin 0.011]
           \<and> rainHour s' ! unat (minutes s) = rainHour s ! unat (minutes s) + Fin 0.011
           \<and> rainlast s' = now))
   \<and> (\<not> now - rainlast s > 10 \<longrightarrow>
        (\<exists>s'. rainIRQ now s = Some s' \<and> rainHour s' = rainHour s
           \<and> rainlast s' = rainlast s))"
  by (simp add: wspeedIRQ_def rainIRQ_def Let_def)

theorem debounce_accept_reject_witness:
  "(5000 :: 32 word) - lastWindIRQ boot > 10
   \<and> windClicks (wspeedIRQ 5000 boot) = 1 \<and> lastWindIRQ (wspeedIRQ 5000 boot) = 5000
   \<and> (5000 :: 32 word) - rainlast boot > 10 \<and> unat (minutes boot) < length (rainHour boot)
   \<and> (\<exists>s'. rainIRQ 5000 boot = Some s' \<and> rainHour s' ! 0 = Fin (1476395 / 134217728)
         \<and> rainlast s' = 5000)
   \<and> \<not> (5 :: 32 word) - lastWindIRQ boot > 10 \<and> wspeedIRQ 5 boot = boot
   \<and> \<not> (5 :: 32 word) - rainlast boot > 10
   \<and> (\<exists>s'. rainIRQ 5 boot = Some s' \<and> rainHour s' = rainHour boot \<and> rainlast s' = 0)"
proof -
  have a: "(5000 :: 32 word) - lastWindIRQ boot > 10" "(5000 :: 32 word) - rainlast boot > 10"
    "unat (minutes boot) < length (rainHour boot)"
    and r: "\<not> (5 :: 32 word) - lastWindIRQ boot > 10" "\<not> (5 :: 32 word) - rainlast boot > 10"
    and v: "windClicks boot + 1 = 1" "unat (minutes boot) = 0"
      "rainHour boot ! 0 + Fin 0.011 = Fin (1476395 / 134217728)" "rainlast boot = 0"
    by (simp_all add: boot_def b32_eval)
  from debounce_accept_reject [of 5000 boot] a v
  have 1: "windClicks (wspeedIRQ 5000 boot) = 1 \<and> lastWindIRQ (wspeedIRQ 5000 boot) = 5000"
    by simp
  from debounce_accept_reject [of 5000 boot] a
  obtain s' where "rainIRQ 5000 boot = Some s'"
    "rainHour s' ! unat (minutes boot) = rainHour boot ! unat (minutes boot) + Fin 0.011"
    "rainlast s' = 5000"
    by blast
  with v
  have 2: "\<exists>s'. rainIRQ 5000 boot = Some s' \<and> rainHour s' ! 0 = Fin (1476395 / 134217728)
      \<and> rainlast s' = 5000"
    by simp
  from debounce_accept_reject [of 5 boot] r v
  have 3: "wspeedIRQ 5 boot = boot"
    and 4: "\<exists>s'. rainIRQ 5 boot = Some s' \<and> rainHour s' = rainHour boot \<and> rainlast s' = 0"
    by auto
  from a r 1 2 3 4 show ?thesis by blast
qed

section \<open>The clock of seconds and minutes\<close>

text \<open>
  C7. Every cycle adds one to \<open>seconds\<close>. Exactly when the result exceeds 59, \<open>seconds\<close>
  becomes 0, \<open>minutes\<close> advances by one modulo 60, and the rain slot of the new minute is
  set to zero (no other slot changes); otherwise \<open>minutes\<close> and the rain slots stay as
  they are. Starting from a minute index in \<open>0..59\<close> and an array of 60 slots, both
  counters are in \<open>0..59\<close> after the cycle.
\<close>

theorem clock_advance:
  assumes m: "unat (minutes s) \<le> 59" and l: "length (rainHour s) = 60"
  shows "(seconds s + 1 > 59 \<longrightarrow>
            seconds (calcWeather e s) = 0
          \<and> unat (minutes (calcWeather e s)) = (unat (minutes s) + 1) mod 60
          \<and> rainHour (calcWeather e s) = (rainHour s)[unat (minutes (calcWeather e s)) := Fin 0]
          \<and> rainHour (calcWeather e s) ! unat (minutes (calcWeather e s)) = Fin 0)
       \<and> (\<not> seconds s + 1 > 59 \<longrightarrow>
            seconds (calcWeather e s) = seconds s + 1
          \<and> minutes (calcWeather e s) = minutes s
          \<and> rainHour (calcWeather e s) = rainHour s)
       \<and> unat (seconds (calcWeather e s)) \<le> 59 \<and> unat (minutes (calcWeather e s)) \<le> 59"
proof -
  let ?m' = "if minutes s + 1 > 59 then 0 else minutes s + 1"
  have m': "unat ?m' = (unat (minutes s) + 1) mod 60"
    using m by (rule byte_succ_mod)
  then have lt: "unat ?m' < 60" by simp
  show ?thesis
  proof (cases "seconds s + 1 > 59")
    case True
    have "rainHour (calcWeather e s) ! unat ?m' = Fin 0"
      using True l lt by (simp add: calcWeather_clock_eq del: unat_eq_0)
    with True m' lt show ?thesis
      by (simp add: calcWeather_clock_eq)
  next
    case False
    with m byte_le_59 [OF False] show ?thesis
      by (simp add: calcWeather_clock_eq)
  qed
qed

theorem clock_advance_witness:
  "unat (minutes (boot\<lparr>seconds := 59, minutes := 59\<rparr>)) \<le> 59
   \<and> length (rainHour (boot\<lparr>seconds := 59, minutes := 59\<rparr>)) = 60
   \<and> seconds (boot\<lparr>seconds := 59, minutes := 59\<rparr>) + 1 > 59
   \<and> seconds (calcWeather (env_at 60000 0) (boot\<lparr>seconds := 59, minutes := 59\<rparr>)) = 0
   \<and> unat (minutes (calcWeather (env_at 60000 0) (boot\<lparr>seconds := 59, minutes := 59\<rparr>))) = 0
   \<and> \<not> seconds boot + 1 > 59
   \<and> seconds (calcWeather (env_at 1000 0) boot) = 1"
proof -
  let ?s = "boot\<lparr>seconds := 59, minutes := 59\<rparr>"
  have h1: "unat (minutes ?s) \<le> 59" and h2: "length (rainHour ?s) = 60"
    and h3: "seconds ?s + 1 > 59"
    by (simp_all add: boot_def)
  have g1: "unat (minutes boot) \<le> 59" and g2: "length (rainHour boot) = 60"
    and g3: "\<not> seconds boot + 1 > 59" and g4: "seconds boot + 1 = 1"
    by (simp_all add: boot_def)
  have a: "seconds (calcWeather (env_at 60000 0) ?s) = 0"
    and b: "unat (minutes (calcWeather (env_at 60000 0) ?s)) = (unat (minutes ?s) + 1) mod 60"
    using clock_advance [OF h1 h2, of "env_at 60000 0"] h3 by blast+
  have c: "seconds (calcWeather (env_at 1000 0) boot) = seconds boot + 1"
    using clock_advance [OF g1 g2, of "env_at 1000 0"] g3 by blast
  have d: "(unat (minutes ?s) + 1) mod 60 = 0" by (simp add: boot_def)
  show ?thesis using h1 h2 h3 g3 a b c d g4 by simp
qed

section \<open>Rain\<close>




section \<open>The temperatures of the IR sensor\<close>

text \<open>
  C9. A cycle leaves the globals \<open>irTempc\<close> and \<open>irSkyTempc\<close> as they were, whether the
  IR read fails or succeeds (the values read go to two locals of the same names), so the
  queries \<open>Temperature\<close> and \<open>SkyTemperature\<close> report after the cycle what the globals
  held before it.
\<close>

theorem ir_temperatures_unchanged:
  "irTempc (calcWeather e s) = irTempc s \<and> irSkyTempc (calcWeather e s) = irSkyTempc s
   \<and> Temperature (calcWeather e s) = irTempc s
   \<and> SkyTemperature (calcWeather e s) = irSkyTempc s"
  by (simp add: calcWeather_def Temperature_def SkyTemperature_def calc_rain_eq calc_wind_def
      calc_wind_reset_def calc_wind_gust_def calc_wind_dir_def calc_wind_speed_def Let_def)

section \<open>Edges during the cycle\<close>

text \<open>
  C10. The claim is that no tick is lost when an edge is accepted between the cycle's read
  of \<open>windClicks\<close> and its reset. In \<open>race_state\<close> two ticks are waiting; an edge at
  5000 ms, after the gust part and before the reset, is accepted and makes the counter 3.
  The reset then clears it: the cycle has committed the speed of two ticks in 1000 ms and
  added two ticks to the gust count, and the third tick is in neither and no longer in the
  counter.
\<close>

theorem tick_lost_before_reset:
  "windClicks (calc_wind_dir (env_at 5000 0) race_state) = 2
   \<and> windClicks (fold wspeedIRQ [5000]
        (calc_wind_gust (env_at 5000 0)
           (calc_wind_speed (env_at 5000 0) (calc_wind_dir (env_at 5000 0) race_state)))) = 3
   \<and> windClicks (calc_wind_preempted (env_at 5000 0) [] [5000] race_state) = 0
   \<and> windspeed (calc_wind_preempted (env_at 5000 0) [] [5000] race_state)
       = Fin (2 * 1.492 * 0.44704 / (1000 / 1000))
   \<and> windGustClicks (calc_wind_preempted (env_at 5000 0) [] [5000] race_state) = 2"
  by (simp add: calc_wind_preempted_def race_state_def boot_def env_at_def wspeedIRQ_def
      calc_wind_reset_def calc_wind_gust_def calc_wind_dir_def calc_wind_speed_def Let_def
      float_of_ulong_def float_of_byte_def)

text \<open>
  C10, as the source has it: the read and the reset are separate steps with interrupts
  enabled. Whatever edges are served after the read of line 329, the reset leaves the
  counter at 0 and the committed speed is the one of the cycle without those edges: the
  ticks accepted in between are dropped. Without such edges the cycle is \<open>calc_wind\<close>.
\<close>

theorem reset_discards_late_ticks:
  "windClicks (calc_wind_preempted e es1 es2 s) = 0
   \<and> windspeed (calc_wind_preempted e es1 es2 s) = windspeed (calc_wind e s)
   \<and> calc_wind_preempted e [] [] s = calc_wind e s"
  by (simp add: calc_wind_preempted_def calc_wind_def calc_wind_reset_def
      fold_wspeedIRQ_windspeed calc_wind_gust_windspeed)

end
